theory Spec2Isabelle
  imports Main
begin

section \<open>The configuration struct and its options\<close>

text \<open>
  The development embeds the revision of \<^verbatim>\<open>server.go\<close> that carries the TLS option
  (package \<^verbatim>\<open>simpleserver\<close>, lines 137 to 285 of the source file). The source file
  holds two more revisions: the first (lines 1 to 135) has no \<^verbatim>\<open>CertFile\<close>, \<^verbatim>\<open>KeyFile\<close>
  and \<^verbatim>\<open>WithTLS\<close>, and its \<^verbatim>\<open>Run\<close> always serves plaintext; the last (lines 287 to 403)
  has no read and write timeout fields and options, and its \<^verbatim>\<open>Run\<close> fixes both at 15
  seconds. \<^verbatim>\<open>Shutdown\<close>, the two triggers, and a \<^verbatim>\<open>Run\<close> that serves on a server held
  in a local variable are the same in all three.

  \<^verbatim>\<open>time.Duration\<close> is a count of nanoseconds and \<^verbatim>\<open>Port\<close> a Go \<^verbatim>\<open>int\<close>. The code stores
  and copies these numbers and never computes with a caller's value, so they are
  modelled as \<open>int\<close>; the only arithmetic is on the constants \<^verbatim>\<open>15 * time.Second\<close> and
  \<^verbatim>\<open>time.Second * 60\<close>, which fit in 64 bits.
\<close>

type_synonym Duration = int

definition Second :: Duration where
  "Second = 1000000000"

definition Millisecond :: Duration where
  "Millisecond = 1000000"

text \<open>
  An \<^verbatim>\<open>http.Handler\<close> is an interface value supplied by the caller. The code never
  looks inside one; it only stores it or hands it to \<^verbatim>\<open>cors.New(c).Handler(h)\<close>, which
  returns a new handler built from the options \<open>c\<close> and the handler \<open>h\<close>. Callers'
  handlers are the values of a type \<open>'u\<close>, cross-origin options the values of a type
  \<open>'c\<close>, and a Go interface value that may be \<^verbatim>\<open>nil\<close> is an \<open>option\<close>.
\<close>

datatype ('u, 'c) http_Handler =
    UserHandler 'u
  | CorsHandler 'c "('u, 'c) http_Handler option"

text \<open>
  The \<^verbatim>\<open>http.Server\<close> of the standard library: the five fields \<^verbatim>\<open>Run\<close> sets, and the
  part of its private state that graceful shutdown is about: whether a listener is
  open, whether \<^verbatim>\<open>Shutdown\<close> has been called on it, and the requests in flight (each
  with the time it still needs). The zero value of the struct has every field zero.
\<close>

record ('u, 'c) http_Server =
  srv_Addr :: string
  srv_Handler :: "('u, 'c) http_Handler option"
  srv_WriteTimeout :: Duration
  srv_ReadTimeout :: Duration
  srv_IdleTimeout :: Duration
  listening :: bool
  inShutdown :: bool
  activeConn :: "Duration list"

definition http_Server_zero :: "('u, 'c) http_Server" where
  "http_Server_zero =
     \<lparr>srv_Addr = [], srv_Handler = None, srv_WriteTimeout = 0, srv_ReadTimeout = 0,
      srv_IdleTimeout = 0, listening = False, inShutdown = False, activeConn = []\<rparr>"

text \<open>
  \<^verbatim>\<open>type Server struct\<close>. The unexported field \<^verbatim>\<open>srv\<close> is an \<^verbatim>\<open>http.Server\<close> held by
  value, not a pointer to one.
\<close>

record ('u, 'c) Server =
  Port :: int
  Addr :: string
  Handler :: "('u, 'c) http_Handler option"
  WriteTimeout :: Duration
  ReadTimeout :: Duration
  CertFile :: string
  KeyFile :: string
  ShutdownTimeout :: Duration
  srv :: "('u, 'c) http_Server"

text \<open>
  \<^verbatim>\<open>type serverOpt func(s *Server)\<close>: a closure that mutates the struct it is given,
  here a function from the struct before to the struct after. Each constructor below
  returns the closure of the source, assignment for assignment. An option is never the
  \<^verbatim>\<open>nil\<close> function: every constructor returns a closure.
\<close>

type_synonym ('u, 'c) serverOpt = "('u, 'c) Server \<Rightarrow> ('u, 'c) Server"

definition WithTLS :: "string \<Rightarrow> string \<Rightarrow> ('u, 'c) serverOpt" where
  "WithTLS certFile keyFile = (\<lambda>s. s\<lparr>CertFile := certFile, KeyFile := keyFile\<rparr>)"

definition WithShutdownTimeout :: "Duration \<Rightarrow> ('u, 'c) serverOpt" where
  "WithShutdownTimeout t = (\<lambda>s. s\<lparr>ShutdownTimeout := t\<rparr>)"

definition WithPort :: "int \<Rightarrow> ('u, 'c) serverOpt" where
  "WithPort port = (\<lambda>s. s\<lparr>Port := port\<rparr>)"

definition WithAddr :: "string \<Rightarrow> ('u, 'c) serverOpt" where
  "WithAddr addr = (\<lambda>s. s\<lparr>Addr := addr\<rparr>)"

definition WithHandler :: "('u, 'c) http_Handler option \<Rightarrow> ('u, 'c) serverOpt" where
  "WithHandler h = (\<lambda>s. s\<lparr>Handler := h\<rparr>)"

definition WithWriteTimeout :: "Duration \<Rightarrow> ('u, 'c) serverOpt" where
  "WithWriteTimeout t = (\<lambda>s. s\<lparr>WriteTimeout := t\<rparr>)"

definition WithReadTimeout :: "Duration \<Rightarrow> ('u, 'c) serverOpt" where
  "WithReadTimeout t = (\<lambda>s. s\<lparr>ReadTimeout := t\<rparr>)"

definition WithCorsHandler ::
  "('u, 'c) http_Handler option \<Rightarrow> 'c \<Rightarrow> ('u, 'c) serverOpt" where
  "WithCorsHandler h c = (\<lambda>s. s\<lparr>Handler := Some (CorsHandler c h)\<rparr>)"

text \<open>
  \<^verbatim>\<open>NewServer\<close>: the struct literal with the defaults (the fields it does not name are
  zero), then the loop \<^verbatim>\<open>for _, opt := range opts { opt(s) }\<close>.
\<close>

definition default_Server :: "('u, 'c) Server" where
  "default_Server =
     \<lparr>Port = 8080, Addr = [], Handler = None,
      WriteTimeout = 15 * Second, ReadTimeout = 15 * Second,
      CertFile = [], KeyFile = [],
      ShutdownTimeout = 15 * Second, srv = http_Server_zero\<rparr>"

fun apply_opts :: "('u, 'c) Server \<Rightarrow> ('u, 'c) serverOpt list \<Rightarrow> ('u, 'c) Server" where
  "apply_opts s [] = s"
| "apply_opts s (opt # opts) = apply_opts (opt s) opts"

definition NewServer :: "('u, 'c) serverOpt list \<Rightarrow> ('u, 'c) Server" where
  "NewServer opts = apply_opts default_Server opts"

text \<open>
  One call of an option constructor as it stands at a call site of \<^verbatim>\<open>NewServer\<close>, and
  the closure that call evaluates to. A sequence of these is a sequence of options whose
  targets can be read off.
\<close>

datatype ('u, 'c) option_call =
    CallWithTLS string string
  | CallWithShutdownTimeout Duration
  | CallWithPort int
  | CallWithAddr string
  | CallWithHandler "('u, 'c) http_Handler option"
  | CallWithWriteTimeout Duration
  | CallWithReadTimeout Duration
  | CallWithCorsHandler "('u, 'c) http_Handler option" 'c

fun opt_of :: "('u, 'c) option_call \<Rightarrow> ('u, 'c) serverOpt" where
  "opt_of (CallWithTLS certFile keyFile) = WithTLS certFile keyFile"
| "opt_of (CallWithShutdownTimeout t) = WithShutdownTimeout t"
| "opt_of (CallWithPort port) = WithPort port"
| "opt_of (CallWithAddr addr) = WithAddr addr"
| "opt_of (CallWithHandler h) = WithHandler h"
| "opt_of (CallWithWriteTimeout t) = WithWriteTimeout t"
| "opt_of (CallWithReadTimeout t) = WithReadTimeout t"
| "opt_of (CallWithCorsHandler h c) = WithCorsHandler h c"

subsection \<open>Last write wins, as the specification words it\<close>

text \<open>
  The specification's reading of a sequence of options: for each field, the value of the
  last option in the sequence that targets the field, and the default when none does.
  \<open>targets_F\<close> says whether an option targets field \<open>F\<close> and with which value. These
  definitions follow the specification, not the code; \<open>NewServer\<close> is compared with
  them below.
\<close>

definition last_write :: "('o \<Rightarrow> 'v option) \<Rightarrow> 'v \<Rightarrow> 'o list \<Rightarrow> 'v" where
  "last_write targets dflt os =
     (case rev (List.map_filter targets os) of [] \<Rightarrow> dflt | v # _ \<Rightarrow> v)"

fun targets_Port :: "('u, 'c) option_call \<Rightarrow> int option" where
  "targets_Port (CallWithPort port) = Some port"
| "targets_Port _ = None"

fun targets_Addr :: "('u, 'c) option_call \<Rightarrow> string option" where
  "targets_Addr (CallWithAddr addr) = Some addr"
| "targets_Addr _ = None"

fun targets_Handler :: "('u, 'c) option_call \<Rightarrow> ('u, 'c) http_Handler option option" where
  "targets_Handler (CallWithHandler h) = Some h"
| "targets_Handler (CallWithCorsHandler h c) = Some (Some (CorsHandler c h))"
| "targets_Handler _ = None"

fun targets_WriteTimeout :: "('u, 'c) option_call \<Rightarrow> Duration option" where
  "targets_WriteTimeout (CallWithWriteTimeout t) = Some t"
| "targets_WriteTimeout _ = None"

fun targets_ReadTimeout :: "('u, 'c) option_call \<Rightarrow> Duration option" where
  "targets_ReadTimeout (CallWithReadTimeout t) = Some t"
| "targets_ReadTimeout _ = None"

fun targets_CertFile :: "('u, 'c) option_call \<Rightarrow> string option" where
  "targets_CertFile (CallWithTLS certFile keyFile) = Some certFile"
| "targets_CertFile _ = None"

fun targets_KeyFile :: "('u, 'c) option_call \<Rightarrow> string option" where
  "targets_KeyFile (CallWithTLS certFile keyFile) = Some keyFile"
| "targets_KeyFile _ = None"

fun targets_ShutdownTimeout :: "('u, 'c) option_call \<Rightarrow> Duration option" where
  "targets_ShutdownTimeout (CallWithShutdownTimeout t) = Some t"
| "targets_ShutdownTimeout _ = None"

definition last_write_config :: "('u, 'c) option_call list \<Rightarrow> ('u, 'c) Server" where
  "last_write_config os =
     \<lparr>Port = last_write targets_Port 8080 os,
      Addr = last_write targets_Addr [] os,
      Handler = last_write targets_Handler None os,
      WriteTimeout = last_write targets_WriteTimeout (15 * Second) os,
      ReadTimeout = last_write targets_ReadTimeout (15 * Second) os,
      CertFile = last_write targets_CertFile [] os,
      KeyFile = last_write targets_KeyFile [] os,
      ShutdownTimeout = last_write targets_ShutdownTimeout (15 * Second) os,
      srv = http_Server_zero\<rparr>"

section \<open>The standard library, as far as this code calls it\<close>

text \<open>
  \<^verbatim>\<open>net/http\<close>, \<^verbatim>\<open>context\<close>, \<^verbatim>\<open>os/signal\<close> and \<^verbatim>\<open>fmt\<close> are not part of the repository.
  The definitions of this section state the documented behaviour of the library entry
  points the code calls, on the state kept in \<open>http_Server\<close>:

  \<^item> \<^verbatim>\<open>ListenAndServe\<close> and \<^verbatim>\<open>ListenAndServeTLS\<close> return \<^verbatim>\<open>ErrServerClosed\<close> at once on a
    server that has been shut down, return the error of listening (or of loading the
    certificate) when that fails, and otherwise serve: they block, and return
    \<^verbatim>\<open>ErrServerClosed\<close> once \<^verbatim>\<open>Shutdown\<close> has been called on the same server.
  \<^item> \<^verbatim>\<open>Shutdown(ctx)\<close> marks the server as shut down, closes its listeners, and returns
    \<^verbatim>\<open>nil\<close> when no connection is active; it looks at the connections before it looks
    at the context. With requests in flight it returns \<^verbatim>\<open>nil\<close> if they finish before the
    context's deadline and the context's error otherwise (the polling granularity is
    left out). The zero value of \<^verbatim>\<open>http.Server\<close> is a valid server: it has no listener
    and no connection. Errors of closing a listener are left out.
\<close>

datatype error = ErrServerClosed | DeadlineExceeded | ListenError

text \<open>A call that may block: it has returned a value, or it is still blocked.\<close>

datatype 'a blocking = Blocked | Returned 'a

definition http_listen ::
  "bool \<Rightarrow> ('u, 'c) http_Server \<Rightarrow> error + ('u, 'c) http_Server" where
  "http_listen listen_ok hs =
     (if inShutdown hs then Inl ErrServerClosed
      else if \<not> listen_ok then Inl ListenError
      else Inr (hs\<lparr>listening := True\<rparr>))"

definition http_serve_result :: "('u, 'c) http_Server \<Rightarrow> error blocking" where
  "http_serve_result hs = (if inShutdown hs then Returned ErrServerClosed else Blocked)"

definition http_Shutdown ::
  "('u, 'c) http_Server \<Rightarrow> Duration \<Rightarrow> error option \<times> ('u, 'c) http_Server" where
  "http_Shutdown hs timeout =
     (let hs' = hs\<lparr>listening := False, inShutdown := True\<rparr> in
      if activeConn hs = [] then (None, hs')
      else if 0 < timeout \<and> list_all (\<lambda>r. r < timeout) (activeConn hs)
        then (None, hs'\<lparr>activeConn := []\<rparr>)
      else (Some DeadlineExceeded, hs'))"

text \<open>
  A request that needs \<open>d\<close> to complete arrives: the server that is listening, if
  there is one, has it in flight from then on.
\<close>

definition http_accept :: "Duration \<Rightarrow> ('u, 'c) http_Server \<Rightarrow> ('u, 'c) http_Server" where
  "http_accept d hs = (if listening hs then hs\<lparr>activeConn := activeConn hs @ [d]\<rparr> else hs)"

text \<open>\<^verbatim>\<open>fmt.Sprintf("%s:%d", addr, port)\<close>: the string, a colon, the integer in decimal.\<close>

fun digits :: "nat \<Rightarrow> string" where
  "digits n =
     (if n < 10 then [''0123456789'' ! n]
      else digits (n div 10) @ [''0123456789'' ! (n mod 10)])"

declare digits.simps [simp del]

definition Sprintf_d :: "int \<Rightarrow> string" where
  "Sprintf_d i = (if i < 0 then CHR ''-'' # digits (nat (- i)) else digits (nat i))"

definition Sprintf_s_d :: "string \<Rightarrow> int \<Rightarrow> string" where
  "Sprintf_s_d a p = a @ '':'' @ Sprintf_d p"

section \<open>The lifecycle controller\<close>

text \<open>
  The objects the methods of \<^verbatim>\<open>*Server\<close> act on: the struct the receiver \<open>s\<close> points
  to (with its field \<^verbatim>\<open>srv\<close>, held by value), the \<^verbatim>\<open>http.Server\<close> that a call of \<^verbatim>\<open>Run\<close>
  allocates with \<^verbatim>\<open>srv := &http.Server{...}\<close> and serves on (absent while no call of
  \<^verbatim>\<open>Run\<close> is serving; the model follows one call of \<^verbatim>\<open>Run\<close>), and the calls made into
  the library so far, in order, each with the value of its receiver and arguments at
  the time of the call. Receivers are not \<^verbatim>\<open>nil\<close>: \<^verbatim>\<open>NewServer\<close> never returns \<^verbatim>\<open>nil\<close>.
\<close>

type_synonym Signal = nat

datatype ('u, 'c) lib_call =
    ListenAndServe "('u, 'c) http_Server"
  | ListenAndServeTLS "('u, 'c) http_Server" string string
  | Server_Shutdown "('u, 'c) http_Server" Duration
  | signal_Notify Signal

record ('u, 'c) world =
  self :: "('u, 'c) Server"
  run_srv :: "('u, 'c) http_Server option"
  calls :: "('u, 'c) lib_call list"

definition new_world :: "('u, 'c) Server \<Rightarrow> ('u, 'c) world" where
  "new_world s = \<lparr>self = s, run_srv = None, calls = []\<rparr>"

text \<open>
  \<^verbatim>\<open>Shutdown\<close>: a context with the timeout \<^verbatim>\<open>s.ShutdownTimeout\<close>, then
  \<^verbatim>\<open>s.srv.Shutdown(ctx)\<close>, whose result is returned as it is.
\<close>

definition Shutdown :: "('u, 'c) world \<Rightarrow> error option \<times> ('u, 'c) world" where
  "Shutdown w =
     (let s = self w;
          timeout = ShutdownTimeout s;
          (err, hs') = http_Shutdown (srv s) timeout
      in (err, w\<lparr>self := s\<lparr>srv := hs'\<rparr>,
                  calls := calls w @ [Server_Shutdown (srv s) timeout]\<rparr>))"

text \<open>
  \<^verbatim>\<open>Run\<close>. \<open>Run_srv\<close> is the struct literal assigned to the local variable \<^verbatim>\<open>srv\<close>
  (the fields it does not name are zero), \<open>Run_call\<close> the library call \<^verbatim>\<open>Run\<close> returns
  the result of. \<open>Run_enter\<close> is \<^verbatim>\<open>Run\<close> up to the point where the library call has
  failed or is serving; \<open>listen_ok\<close> says whether the library manages to listen.
  \<open>Run_result\<close> is what the call of \<^verbatim>\<open>Run\<close> that is serving returns, once it does.
\<close>

definition Run_srv :: "('u, 'c) Server \<Rightarrow> ('u, 'c) http_Server" where
  "Run_srv s =
     \<lparr>srv_Addr = Sprintf_s_d (Addr s) (Port s),
      srv_Handler = Handler s,
      srv_WriteTimeout = WriteTimeout s,
      srv_ReadTimeout = ReadTimeout s,
      srv_IdleTimeout = Second * 60,
      listening = False, inShutdown = False, activeConn = []\<rparr>"

definition Run_call :: "('u, 'c) Server \<Rightarrow> ('u, 'c) lib_call" where
  "Run_call s =
     (if CertFile s \<noteq> [] \<and> KeyFile s \<noteq> []
      then ListenAndServeTLS (Run_srv s) (CertFile s) (KeyFile s)
      else ListenAndServe (Run_srv s))"

definition Run_enter :: "bool \<Rightarrow> ('u, 'c) world \<Rightarrow> error blocking \<times> ('u, 'c) world" where
  "Run_enter listen_ok w =
     (let s = self w;
          w' = w\<lparr>calls := calls w @ [Run_call s]\<rparr>
      in case http_listen listen_ok (Run_srv s) of
           Inl err \<Rightarrow> (Returned err, w')
         | Inr hs \<Rightarrow> (Blocked, w'\<lparr>run_srv := Some hs\<rparr>))"

definition Run_result :: "('u, 'c) world \<Rightarrow> error blocking" where
  "Run_result w = (case run_srv w of None \<Rightarrow> Blocked | Some hs \<Rightarrow> http_serve_result hs)"

text \<open>
  The two triggers. \<^verbatim>\<open>WithSigShutdown\<close> registers a channel for \<open>sig\<close> and receives from
  it once: of the signals delivered to the process from then on (\<open>delivered\<close>, in
  order) only \<open>sig\<close> is relayed to the channel, so the receive returns if \<open>sig\<close> is among
  them and blocks otherwise. \<^verbatim>\<open>WithContextShutdown\<close> receives from \<^verbatim>\<open>ctx.Done()\<close>, which
  returns if the context is cancelled (\<open>cancelled\<close>) and blocks otherwise. Both then
  return \<^verbatim>\<open>s.Shutdown()\<close>.
\<close>

definition WithSigShutdown ::
  "Signal \<Rightarrow> Signal list \<Rightarrow> ('u, 'c) world \<Rightarrow> error option blocking \<times> ('u, 'c) world" where
  "WithSigShutdown sig delivered w =
     (let w' = w\<lparr>calls := calls w @ [signal_Notify sig]\<rparr>
      in case List.find (\<lambda>x. x = sig) delivered of
           None \<Rightarrow> (Blocked, w')
         | Some _ \<Rightarrow> (let (err, w'') = Shutdown w' in (Returned err, w'')))"

definition WithContextShutdown ::
  "bool \<Rightarrow> ('u, 'c) world \<Rightarrow> error option blocking \<times> ('u, 'c) world" where
  "WithContextShutdown cancelled w =
     (if cancelled then (let (err, w') = Shutdown w in (Returned err, w'))
      else (Blocked, w))"

text \<open>The number of calls of \<^verbatim>\<open>http.Server.Shutdown\<close> among the library calls made.\<close>

fun is_Server_Shutdown :: "('u, 'c) lib_call \<Rightarrow> bool" where
  "is_Server_Shutdown (Server_Shutdown hs timeout) = True"
| "is_Server_Shutdown _ = False"

definition shutdown_calls :: "('u, 'c) world \<Rightarrow> nat" where
  "shutdown_calls w = length (filter is_Server_Shutdown (calls w))"

section \<open>The states a program can reach\<close>

text \<open>
  A client's request reaches the server that a call of \<^verbatim>\<open>Run\<close> is serving on. The
  reachable states are those a program gets to from a server built by \<^verbatim>\<open>NewServer\<close>
  out of the package's options, by calling the methods and by requests arriving.
\<close>

definition request_arrives :: "Duration \<Rightarrow> ('u, 'c) world \<Rightarrow> ('u, 'c) world" where
  "request_arrives d w =
     (case run_srv w of None \<Rightarrow> w | Some hs \<Rightarrow> w\<lparr>run_srv := Some (http_accept d hs)\<rparr>)"

inductive reachable :: "('u, 'c) world \<Rightarrow> bool" where
  reach_new: "reachable (new_world (NewServer (map opt_of os)))"
| reach_Run: "reachable w \<Longrightarrow> reachable (snd (Run_enter listen_ok w))"
| reach_Shutdown: "reachable w \<Longrightarrow> reachable (snd (Shutdown w))"
| reach_WithSigShutdown:
    "reachable w \<Longrightarrow> reachable (snd (WithSigShutdown sig delivered w))"
| reach_WithContextShutdown:
    "reachable w \<Longrightarrow> reachable (snd (WithContextShutdown cancelled w))"
| reach_request: "reachable w \<Longrightarrow> reachable (request_arrives d w)"

text \<open>
  Two properties of a state: the field \<^verbatim>\<open>s.srv\<close> has no listener and no
  request in flight, and the server \<^verbatim>\<open>Run\<close> serves on, if there is one, is listening
  and has not been shut down.
\<close>

definition field_srv_idle :: "('u, 'c) world \<Rightarrow> bool" where
  "field_srv_idle w = (activeConn (srv (self w)) = [] \<and> \<not> listening (srv (self w)))"

definition run_srv_serving :: "('u, 'c) world \<Rightarrow> bool" where
  "run_srv_serving w =
     (case run_srv w of None \<Rightarrow> True | Some hs \<Rightarrow> listening hs \<and> \<not> inShutdown hs)"

section \<open>Construction\<close>

lemmas opt_defs = WithTLS_def WithShutdownTimeout_def WithPort_def WithAddr_def
  WithHandler_def WithWriteTimeout_def WithReadTimeout_def WithCorsHandler_def

lemma apply_opts_append: "apply_opts s (xs @ ys) = apply_opts (apply_opts s xs) ys"
  by (induction xs arbitrary: s) simp_all

lemma NewServer_snoc: "NewServer (opts @ [opt]) = opt (NewServer opts)"
  by (simp add: NewServer_def apply_opts_append)

text \<open>
  Claim C4. \<^verbatim>\<open>NewServer\<close> called with no options yields port 8080, the empty address,
  and read, write and shutdown timeouts of 15 seconds each, a second being
  1000000000 nanoseconds.
\<close>

theorem NewServer_defaults:
  "Port (NewServer []) = 8080 \<and>
   Addr (NewServer []) = [] \<and>
   ReadTimeout (NewServer []) = 15 * Second \<and>
   WriteTimeout (NewServer []) = 15 * Second \<and>
   ShutdownTimeout (NewServer []) = 15 * Second \<and>
   Second = 1000 * 1000 * 1000"
  by (simp add: NewServer_def default_Server_def Second_def)

subsection \<open>Last write wins\<close>

lemma last_write_Nil: "last_write targets dflt [] = dflt"
  by (simp add: last_write_def List.map_filter_simps)

lemma last_write_snoc:
  "last_write targets dflt (os @ [x]) =
     (case targets x of None \<Rightarrow> last_write targets dflt os | Some v \<Rightarrow> v)"
  by (simp add: last_write_def List.map_filter_def split: option.split)

lemma last_write_config_Nil: "last_write_config [] = default_Server"
  by (simp add: last_write_config_def default_Server_def last_write_Nil)

lemma last_write_config_snoc:
  "last_write_config (os @ [x]) = opt_of x (last_write_config os)"
  by (cases x) (simp_all add: last_write_config_def last_write_snoc opt_defs)

lemma NewServer_opt_of: "NewServer (map opt_of os) = last_write_config os"
proof (induction os rule: rev_induct)
  case Nil
  show ?case by (simp add: NewServer_def last_write_config_Nil)
next
  case (snoc x os)
  have "NewServer (map opt_of (os @ [x])) = opt_of x (NewServer (map opt_of os))"
    by (simp add: NewServer_snoc)
  with snoc show ?case by (simp add: last_write_config_snoc)
qed

lemma NewServer_example:
  "NewServer [WithPort 1, WithAddr ''a'', WithPort 2] =
     default_Server\<lparr>Port := 2, Addr := ''a''\<rparr>"
  by (simp add: NewServer_def opt_defs)

text \<open>
  Claim C5. \<^verbatim>\<open>NewServer\<close> starts from the defaults and applies its options in the
  order given: the server built from a sequence extended by one more option is that
  option applied to the server built from the sequence. For every sequence of the
  package's options the result is the last-write-wins configuration: each field holds
  the value of the last option that targets it, and its default when no option does.
\<close>

theorem NewServer_last_write_wins:
  "NewServer [] = default_Server \<and>
   NewServer (opts @ [opt]) = opt (NewServer opts) \<and>
   NewServer (map opt_of os) = last_write_config os"
  by (simp add: NewServer_snoc NewServer_opt_of) (simp add: NewServer_def)

subsection \<open>What the options store\<close>

text \<open>
  Claim C9. The options validate nothing. For every integer \<open>p\<close>, \<^verbatim>\<open>WithPort\<close> changes
  the port to exactly \<open>p\<close> and nothing else, and for every duration \<open>t\<close> each timeout
  option changes its timeout to exactly \<open>t\<close> and nothing else; a server built with such
  an option last holds that value.
\<close>

theorem options_store_unvalidated:
  "WithPort p s = s\<lparr>Port := p\<rparr> \<and>
   WithShutdownTimeout t s = s\<lparr>ShutdownTimeout := t\<rparr> \<and>
   WithReadTimeout t s = s\<lparr>ReadTimeout := t\<rparr> \<and>
   WithWriteTimeout t s = s\<lparr>WriteTimeout := t\<rparr> \<and>
   Port (NewServer (opts @ [WithPort p])) = p \<and>
   ShutdownTimeout (NewServer (opts @ [WithShutdownTimeout t])) = t \<and>
   ReadTimeout (NewServer (opts @ [WithReadTimeout t])) = t \<and>
   WriteTimeout (NewServer (opts @ [WithWriteTimeout t])) = t"
  by (simp add: NewServer_snoc opt_defs)

text \<open>Negative and out-of-range values go through, down to the address \<^verbatim>\<open>Run\<close> binds.\<close>

lemma unvalidated_examples:
  "Port (NewServer [WithPort (- 1)]) = - 1 \<and>
   Port (NewServer [WithPort 70000]) = 70000 \<and>
   ShutdownTimeout (NewServer [WithShutdownTimeout (- 5 * Second)]) = - 5000000000 \<and>
   srv_Addr (Run_srv (NewServer [WithPort (- 1)])) = '':-1''"
  by (simp add: NewServer_def opt_defs Second_def Run_srv_def Sprintf_s_d_def Sprintf_d_def
      digits.simps default_Server_def)

text \<open>
  Claim C10. \<^verbatim>\<open>WithCorsHandler\<close> sets the handler to the cross-origin wrapping of its
  own argument. The result does not depend on the handler configured before, which is
  discarded: after \<^verbatim>\<open>WithHandler(g)\<close>, the handler is the wrapping of \<open>h\<close>, and \<open>g\<close> is
  gone.
\<close>

theorem WithCorsHandler_discards_configured_handler:
  "Handler (WithCorsHandler h c s) = Some (CorsHandler c h) \<and>
   WithCorsHandler h c (s\<lparr>Handler := g\<rparr>) = WithCorsHandler h c s \<and>
   Handler (NewServer (opts @ [WithHandler g, WithCorsHandler h c])) = Some (CorsHandler c h)"
  using NewServer_snoc [of "opts @ [WithHandler g]" "WithCorsHandler h c"]
  by (simp add: opt_defs)

section \<open>Run\<close>

lemma Run_enter_self: "self (snd (Run_enter listen_ok w)) = self w"
  by (simp add: Run_enter_def Let_def split: sum.split)

lemma Run_enter_ok:
  "Run_enter True w =
     (Blocked, w\<lparr>calls := calls w @ [Run_call (self w)],
                 run_srv := Some ((Run_srv (self w))\<lparr>listening := True\<rparr>)\<rparr>)"
  by (simp add: Run_enter_def Let_def http_listen_def Run_srv_def)

text \<open>
  Claim C6. If the certificate path and the key path of the server are both non-empty,
  the library call \<^verbatim>\<open>Run\<close> makes is \<^verbatim>\<open>ListenAndServeTLS\<close> with those two paths; if either
  is empty, it is the plaintext \<^verbatim>\<open>ListenAndServe\<close>. Either call is made on the server
  \<^verbatim>\<open>Run\<close> has constructed.
\<close>

theorem Run_selects_transport:
  "(CertFile (self w) \<noteq> [] \<and> KeyFile (self w) \<noteq> [] \<longrightarrow>
      calls (snd (Run_enter listen_ok w)) =
        calls w @ [ListenAndServeTLS (Run_srv (self w)) (CertFile (self w)) (KeyFile (self w))]) \<and>
   (CertFile (self w) = [] \<or> KeyFile (self w) = [] \<longrightarrow>
      calls (snd (Run_enter listen_ok w)) = calls w @ [ListenAndServe (Run_srv (self w))])"
  by (auto simp: Run_enter_def Let_def Run_call_def split: sum.split)

theorem Run_selects_transport_witness:
  "calls (snd (Run_enter True
      (new_world (NewServer [WithTLS ''cert.pem'' ''key.pem''] :: (nat, nat) Server)))) =
     [ListenAndServeTLS (Run_srv (NewServer [WithTLS ''cert.pem'' ''key.pem'']))
        ''cert.pem'' ''key.pem''] \<and>
   calls (snd (Run_enter True
      (new_world (NewServer [WithTLS ''cert.pem'' []] :: (nat, nat) Server)))) =
     [ListenAndServe (Run_srv (NewServer [WithTLS ''cert.pem'' []]))] \<and>
   calls (snd (Run_enter True (new_world (NewServer [] :: (nat, nat) Server)))) =
     [ListenAndServe (Run_srv (NewServer []))]"
  using
    Run_selects_transport
      [of "new_world (NewServer [WithTLS ''cert.pem'' ''key.pem''] :: (nat, nat) Server)" True]
    Run_selects_transport
      [of "new_world (NewServer [WithTLS ''cert.pem'' []] :: (nat, nat) Server)" True]
    Run_selects_transport [of "new_world (NewServer [] :: (nat, nat) Server)" True]
  by (simp add: new_world_def NewServer_def default_Server_def WithTLS_def)

text \<open>
  Claim C7. The server \<^verbatim>\<open>Run\<close> constructs has as its address the configured address, a
  colon and the configured port in decimal; it has the configured handler and the
  configured read and write timeouts; its idle timeout is 60 seconds, whatever options
  the server was built with. This is the server the library call of \<^verbatim>\<open>Run\<close> is made on,
  and the one that listens when listening succeeds.
\<close>

theorem Run_constructs_server:
  "srv_Addr (Run_srv s) = Addr s @ '':'' @ Sprintf_d (Port s) \<and>
   srv_Handler (Run_srv s) = Handler s \<and>
   srv_ReadTimeout (Run_srv s) = ReadTimeout s \<and>
   srv_WriteTimeout (Run_srv s) = WriteTimeout s \<and>
   srv_IdleTimeout (Run_srv s) = 60 * Second \<and>
   srv_IdleTimeout (Run_srv (NewServer (map opt_of os))) = 60 * Second \<and>
   (Run_call s = ListenAndServe (Run_srv s) \<or>
    Run_call s = ListenAndServeTLS (Run_srv s) (CertFile s) (KeyFile s)) \<and>
   calls (snd (Run_enter listen_ok w)) = calls w @ [Run_call (self w)] \<and>
   run_srv (snd (Run_enter True w)) = Some ((Run_srv (self w))\<lparr>listening := True\<rparr>)"
  by (simp add: Run_enter_ok)
    (simp add: Run_srv_def Sprintf_s_d_def Run_call_def Run_enter_def Let_def split: sum.split)

lemma Run_addr_examples:
  "srv_Addr (Run_srv (NewServer [])) = '':8080'' \<and>
   srv_Addr (Run_srv (NewServer [WithAddr ''localhost'', WithPort 443])) = ''localhost:443''"
  by (simp add: NewServer_def opt_defs Run_srv_def Sprintf_s_d_def Sprintf_d_def
      digits.simps default_Server_def)

section \<open>Shutdown and the triggers\<close>

lemma http_Shutdown_idle:
  "activeConn hs = [] \<Longrightarrow>
   http_Shutdown hs timeout = (None, hs\<lparr>listening := False, inShutdown := True\<rparr>)"
  by (simp add: http_Shutdown_def)

lemma Shutdown_idle:
  "activeConn (srv (self w)) = [] \<Longrightarrow>
   Shutdown w =
     (None,
      w\<lparr>self := (self w)\<lparr>srv := (srv (self w))\<lparr>listening := False, inShutdown := True\<rparr>\<rparr>,
        calls := calls w @ [Server_Shutdown (srv (self w)) (ShutdownTimeout (self w))]\<rparr>)"
  by (simp add: Shutdown_def Let_def http_Shutdown_idle)

lemma Shutdown_fst_calls: "fst (Shutdown (w\<lparr>calls := cs\<rparr>)) = fst (Shutdown w)"
  by (simp add: Shutdown_def Let_def split: prod.split)

lemma Shutdown_self_calls:
  "self (snd (Shutdown (w\<lparr>calls := cs\<rparr>))) = self (snd (Shutdown w))"
  by (simp add: Shutdown_def Let_def split: prod.split)

lemma Shutdown_calls:
  "calls (snd (Shutdown w)) =
     calls w @ [Server_Shutdown (srv (self w)) (ShutdownTimeout (self w))]"
  by (simp add: Shutdown_def Let_def split: prod.split)

lemma shutdown_calls_Shutdown: "shutdown_calls (snd (Shutdown w)) = shutdown_calls w + 1"
  by (simp add: shutdown_calls_def Shutdown_calls)

lemma find_signal:
  "List.find (\<lambda>x. x = sig) delivered = (if sig \<in> set delivered then Some sig else None)"
  by (induction delivered) auto

lemma WithSigShutdown_fst:
  "fst (WithSigShutdown sig delivered w) =
     (if sig \<in> set delivered then Returned (fst (Shutdown w)) else Blocked)"
  by (simp add: WithSigShutdown_def Let_def find_signal case_prod_beta Shutdown_fst_calls)

lemma WithSigShutdown_snd:
  "snd (WithSigShutdown sig delivered w) =
     (if sig \<in> set delivered then snd (Shutdown (w\<lparr>calls := calls w @ [signal_Notify sig]\<rparr>))
      else w\<lparr>calls := calls w @ [signal_Notify sig]\<rparr>)"
  by (simp add: WithSigShutdown_def Let_def find_signal split: prod.split)

lemma WithContextShutdown_snd:
  "snd (WithContextShutdown cancelled w) = (if cancelled then snd (Shutdown w) else w)"
  by (simp add: WithContextShutdown_def split: prod.split)

text \<open>
  Claim C8. Each trigger, when it fires, calls \<^verbatim>\<open>Shutdown\<close> exactly once and returns
  its result. \<^verbatim>\<open>WithSigShutdown\<close> returns if the signal it waits for is among the signals
  delivered, and then its result and the server it leaves are those of \<^verbatim>\<open>Shutdown\<close>,
  and one more call of the library's shutdown has been made; if the signal is not
  delivered it stays blocked, the server is unchanged and no such call has been made.
  \<^verbatim>\<open>WithContextShutdown\<close> does the same on the cancellation of its context.
\<close>

theorem triggers_return_Shutdown_result:
  "(sig \<in> set delivered \<longrightarrow>
      fst (WithSigShutdown sig delivered w) = Returned (fst (Shutdown w)) \<and>
      self (snd (WithSigShutdown sig delivered w)) = self (snd (Shutdown w)) \<and>
      shutdown_calls (snd (WithSigShutdown sig delivered w)) = shutdown_calls w + 1) \<and>
   (sig \<notin> set delivered \<longrightarrow>
      fst (WithSigShutdown sig delivered w) = Blocked \<and>
      self (snd (WithSigShutdown sig delivered w)) = self w \<and>
      shutdown_calls (snd (WithSigShutdown sig delivered w)) = shutdown_calls w) \<and>
   (cancelled \<longrightarrow>
      WithContextShutdown cancelled w = (Returned (fst (Shutdown w)), snd (Shutdown w)) \<and>
      shutdown_calls (snd (WithContextShutdown cancelled w)) = shutdown_calls w + 1) \<and>
   (\<not> cancelled \<longrightarrow> WithContextShutdown cancelled w = (Blocked, w))"
proof -
  let ?w = "w\<lparr>calls := calls w @ [signal_Notify sig]\<rparr>"
  have n: "shutdown_calls ?w = shutdown_calls w"
    by (simp add: shutdown_calls_def)
  have sig_fires: "self (snd (Shutdown ?w)) = self (snd (Shutdown w))"
    "shutdown_calls (snd (Shutdown ?w)) = shutdown_calls w + 1"
    using n by (simp_all add: Shutdown_self_calls shutdown_calls_Shutdown)
  have ctx: "WithContextShutdown True w = (Returned (fst (Shutdown w)), snd (Shutdown w))"
    by (simp add: WithContextShutdown_def split: prod.split)
  show ?thesis
    using n sig_fires ctx
    by (simp add: WithSigShutdown_fst WithSigShutdown_snd shutdown_calls_Shutdown
        WithContextShutdown_def)
qed

theorem triggers_return_Shutdown_result_witness:
  "fst (WithSigShutdown 15 [2, 15, 15] (new_world (NewServer [] :: (nat, nat) Server))) =
     Returned None \<and>
   shutdown_calls (snd (WithSigShutdown 15 [2, 15, 15]
     (new_world (NewServer [] :: (nat, nat) Server)))) = 1 \<and>
   fst (WithSigShutdown 15 [2, 1] (new_world (NewServer [] :: (nat, nat) Server))) = Blocked \<and>
   shutdown_calls (snd (WithSigShutdown 15 [2, 1]
     (new_world (NewServer [] :: (nat, nat) Server)))) = 0 \<and>
   fst (WithContextShutdown True (new_world (NewServer [] :: (nat, nat) Server))) =
     Returned None \<and>
   shutdown_calls (snd (WithContextShutdown True
     (new_world (NewServer [] :: (nat, nat) Server)))) = 1 \<and>
   WithContextShutdown False (new_world (NewServer [] :: (nat, nat) Server)) =
     (Blocked, new_world (NewServer []))"
proof -
  let ?w = "new_world (NewServer [] :: (nat, nat) Server)"
  have r: "fst (Shutdown ?w) = None"
    by (simp add: Shutdown_idle new_world_def NewServer_def default_Server_def
        http_Server_zero_def)
  have n: "shutdown_calls ?w = 0"
    by (simp add: shutdown_calls_def new_world_def)
  show ?thesis
    using r n
      triggers_return_Shutdown_result [of 15 "[2, 15, 15]" ?w True]
      triggers_return_Shutdown_result [of 15 "[2, 1]" ?w False]
    by (simp add: shutdown_calls_Shutdown)
qed

section \<open>Which server Shutdown stops\<close>

text \<open>
  \<^verbatim>\<open>Run\<close> serves on the server it allocates and keeps it in a local variable; it never
  assigns the field \<^verbatim>\<open>s.srv\<close>. \<^verbatim>\<open>Shutdown\<close> calls the library on \<^verbatim>\<open>s.srv\<close>. So \<^verbatim>\<open>Run\<close>
  leaves the struct as it was, \<^verbatim>\<open>Shutdown\<close> leaves the serving server as it was, and
  no option touches \<^verbatim>\<open>s.srv\<close>, which therefore stays the zero value it was created
  with, apart from the shutdown mark.
\<close>

lemma Shutdown_run_srv: "run_srv (snd (Shutdown w)) = run_srv w"
  by (simp add: Shutdown_def Let_def split: prod.split)

lemma Shutdown_Run_result: "Run_result (snd (Shutdown w)) = Run_result w"
  by (simp add: Run_result_def Shutdown_run_srv)

lemma srv_opt_of: "srv (opt_of x s) = srv s"
  by (cases x) (simp_all add: opt_defs)

lemma srv_NewServer: "srv (NewServer (map opt_of os)) = http_Server_zero"
proof (induction os rule: rev_induct)
  case Nil
  show ?case by (simp add: NewServer_def default_Server_def)
next
  case (snoc x os)
  then show ?case by (simp add: NewServer_snoc srv_opt_of)
qed

lemma field_srv_idle_Shutdown: "field_srv_idle w \<Longrightarrow> field_srv_idle (snd (Shutdown w))"
  by (simp add: field_srv_idle_def Shutdown_idle)

lemma run_srv_serving_Shutdown: "run_srv_serving w \<Longrightarrow> run_srv_serving (snd (Shutdown w))"
  by (simp add: run_srv_serving_def Shutdown_run_srv)

text \<open>
  In every reachable state the field \<^verbatim>\<open>s.srv\<close> has nothing to wait for and the server
  \<^verbatim>\<open>Run\<close> serves on has not been shut down.
\<close>

lemma reachable_invariant: "reachable w \<Longrightarrow> field_srv_idle w \<and> run_srv_serving w"
proof (induction rule: reachable.induct)
  case (reach_new os)
  show ?case
    by (simp add: field_srv_idle_def run_srv_serving_def new_world_def srv_NewServer
        http_Server_zero_def)
next
  case (reach_Run w listen_ok)
  then show ?case
    by (auto simp: field_srv_idle_def run_srv_serving_def Run_enter_def Let_def
        http_listen_def Run_srv_def split: sum.split option.split)
next
  case (reach_Shutdown w)
  then show ?case by (simp add: field_srv_idle_Shutdown run_srv_serving_Shutdown)
next
  case (reach_WithSigShutdown w sig delivered)
  let ?w = "w\<lparr>calls := calls w @ [signal_Notify sig]\<rparr>"
  from reach_WithSigShutdown.IH have "field_srv_idle ?w \<and> run_srv_serving ?w"
    by (simp add: field_srv_idle_def run_srv_serving_def)
  then show ?case
    by (simp add: WithSigShutdown_snd field_srv_idle_Shutdown run_srv_serving_Shutdown)
next
  case (reach_WithContextShutdown w cancelled)
  then show ?case
    by (simp add: WithContextShutdown_snd field_srv_idle_Shutdown run_srv_serving_Shutdown)
next
  case (reach_request w d)
  then show ?case
    by (auto simp: field_srv_idle_def run_srv_serving_def request_arrives_def http_accept_def
        split: option.split)
qed

text \<open>
  Hence, in every reachable state, \<^verbatim>\<open>Shutdown\<close> returns \<^verbatim>\<open>nil\<close>, and a call of \<^verbatim>\<open>Run\<close>
  that is serving stays blocked.
\<close>

lemma reachable_Shutdown_nil: "reachable w \<Longrightarrow> fst (Shutdown w) = None"
  by (drule reachable_invariant) (simp add: field_srv_idle_def Shutdown_idle)

lemma reachable_Run_blocked: "reachable w \<Longrightarrow> Run_result w = Blocked"
  by (drule reachable_invariant)
    (auto simp: run_srv_serving_def Run_result_def http_serve_result_def split: option.splits)

text \<open>
  Claim C1, on the code. A server is built with the defaults and \<^verbatim>\<open>Run\<close> is serving on
  it. \<^verbatim>\<open>Shutdown\<close> then returns \<^verbatim>\<open>nil\<close>, the server \<^verbatim>\<open>Run\<close> allocated is still the one it
  was, listening, and \<^verbatim>\<open>Run\<close> is still blocked: the listener \<^verbatim>\<open>Run\<close> created is not the
  one \<^verbatim>\<open>Shutdown\<close> closes.
\<close>

theorem Shutdown_after_Run_misses_listener:
  "fst (Run_enter True (new_world (NewServer []))) = Blocked \<and>
   fst (Shutdown (snd (Run_enter True (new_world (NewServer []))))) = None \<and>
   run_srv (snd (Shutdown (snd (Run_enter True (new_world (NewServer [])))))) =
     Some ((Run_srv (NewServer []))\<lparr>listening := True\<rparr>) \<and>
   Run_result (snd (Shutdown (snd (Run_enter True (new_world (NewServer [])))))) = Blocked"
  by (simp add: Run_enter_ok Shutdown_Run_result Shutdown_run_srv)
    (simp add: Shutdown_idle new_world_def NewServer_def default_Server_def
      http_Server_zero_def Run_result_def http_serve_result_def Run_srv_def)

text \<open>
  Claim C2, on the code. A server is built with the defaults and \<^verbatim>\<open>Shutdown\<close> is called
  before \<^verbatim>\<open>Run\<close>. The call returns \<^verbatim>\<open>nil\<close>: the field \<^verbatim>\<open>s.srv\<close> is a struct held by
  value, so there is no \<^verbatim>\<open>nil\<close> pointer to follow, and the library's shutdown of a
  server with no listener and no connection succeeds. All it leaves behind is the
  shutdown mark on \<^verbatim>\<open>s.srv\<close>.
\<close>

theorem Shutdown_before_Run_returns_nil:
  "Shutdown (new_world (NewServer [])) =
     (None,
      \<lparr>self = (NewServer [])\<lparr>srv := http_Server_zero\<lparr>inShutdown := True\<rparr>\<rparr>,
       run_srv = None,
       calls = [Server_Shutdown http_Server_zero (15 * Second)]\<rparr>)"
  by (simp add: Shutdown_idle new_world_def NewServer_def default_Server_def
      http_Server_zero_def)

text \<open>
  Claim C3, on the code. A server is built with a shutdown timeout of 100 milliseconds,
  \<^verbatim>\<open>Run\<close> is serving on it and a request that needs 500 milliseconds is in flight.
  \<^verbatim>\<open>Shutdown\<close> returns \<^verbatim>\<open>nil\<close> and the request is still in flight afterwards, although
  the library's shutdown of the serving server with that timeout would have returned
  the deadline error.
\<close>

theorem Shutdown_ignores_requests_in_flight:
  "fst (Shutdown (request_arrives (500 * Millisecond)
     (snd (Run_enter True
       (new_world (NewServer [WithShutdownTimeout (100 * Millisecond)])))))) = None \<and>
   map_option activeConn (run_srv (snd (Shutdown (request_arrives (500 * Millisecond)
     (snd (Run_enter True
       (new_world (NewServer [WithShutdownTimeout (100 * Millisecond)])))))))) =
     Some [500 * Millisecond] \<and>
   map_option (\<lambda>hs. fst (http_Shutdown hs (100 * Millisecond)))
     (run_srv (request_arrives (500 * Millisecond)
       (snd (Run_enter True
         (new_world (NewServer [WithShutdownTimeout (100 * Millisecond)])))))) =
     Some (Some DeadlineExceeded)"
  by (simp add: Run_enter_ok Shutdown_run_srv)
    (simp add: Shutdown_idle new_world_def NewServer_def default_Server_def
      http_Server_zero_def request_arrives_def http_accept_def WithShutdownTimeout_def
      http_Shutdown_def Millisecond_def Run_srv_def)

end
